theory Spec2Isabelle
  imports Main "HOL-Library.AList" "HOL-Library.Monad_Syntax"
begin

section \<open>Data model\<close>

text \<open>
  The flattener and the reference synthesizer of \<^verbatim>\<open>download_ecfr_titles.py\<close> work on
  Python dictionaries decoded from JSON. An attribute value is a JSON scalar; Python's
  unbounded integers are \<open>int\<close>. JSON floats and containers as attribute values are
  outside the model. A Python \<^verbatim>\<open>str\<close> is kept as its UTF-8 bytes, so that the
  section sign U+00A7 is the two bytes \<open>0xC2 0xA7\<close>.
\<close>

datatype jval = JNull | JBool bool | JInt int | JStr string

text \<open>
  A \<^verbatim>\<open>dict\<close> is an association list in insertion order: \<open>map_of\<close> reads it,
  \<open>AList.update\<close> is \<^verbatim>\<open>d[k] = v\<close> (the value is replaced in place, a new key is
  appended), \<open>AList.delete\<close> is \<^verbatim>\<open>del d[k]\<close>.
\<close>

type_synonym pydict = "(string \<times> jval) list"

text \<open>
  A structure node is a dictionary whose entry \<^verbatim>\<open>children\<close>, when present, is a list
  of structure nodes. The entry \<^verbatim>\<open>children\<close> is the second field (\<open>None\<close> when the
  key is absent); every other entry is in \<open>attrs\<close>, with distinct keys as in a Python
  dictionary. A node whose \<^verbatim>\<open>children\<close> is not a list of nodes is outside the model.
\<close>

datatype node = Node (attrs: pydict) (children: "node list option")

section \<open>Python primitives\<close>

text \<open>\<^verbatim>\<open>bool(v)\<close>: the truth value of a scalar.\<close>

fun truthy :: "jval \<Rightarrow> bool" where
  "truthy JNull = False"
| "truthy (JBool b) = b"
| "truthy (JInt i) = (i \<noteq> 0)"
| "truthy (JStr s) = (s \<noteq> [])"

text \<open>\<^verbatim>\<open>str(n)\<close> for an integer: decimal digits, with a minus sign when negative.\<close>

fun str_nat :: "nat \<Rightarrow> string" where
  "str_nat n =
     (if n < 10 then [char_of (48 + n)]
      else str_nat (n div 10) @ [char_of (48 + n mod 10)])"

declare str_nat.simps [simp del]

definition str_int :: "int \<Rightarrow> string" where
  "str_int i = (if i < 0 then ''-'' @ str_nat (nat (- i)) else str_nat (nat i))"

text \<open>What an f-string writes for \<^verbatim>\<open>{v}\<close>.\<close>

fun py_str :: "jval \<Rightarrow> string" where
  "py_str JNull = ''None''"
| "py_str (JBool b) = (if b then ''True'' else ''False'')"
| "py_str (JInt i) = str_int i"
| "py_str (JStr s) = s"

text \<open>\<^verbatim>\<open>d.get(k, default)\<close>; \<^verbatim>\<open>d.get(k)\<close> is \<open>dict_get d k JNull\<close>.\<close>

definition dict_get :: "pydict \<Rightarrow> string \<Rightarrow> jval \<Rightarrow> jval" where
  "dict_get d k dflt = (case map_of d k of None \<Rightarrow> dflt | Some v \<Rightarrow> v)"

text \<open>\<^verbatim>\<open>k in d\<close>.\<close>

definition contains :: "pydict \<Rightarrow> string \<Rightarrow> bool" where
  "contains d k = (map_of d k \<noteq> None)"

text \<open>\<^verbatim>\<open>d[k]\<close>: raises \<^verbatim>\<open>KeyError\<close> (here \<open>None\<close>) when the key is absent.\<close>

definition getitem :: "pydict \<Rightarrow> string \<Rightarrow> jval option" where
  "getitem d k = map_of d k"

text \<open>
  The condition \<^verbatim>\<open>k in item and item[k]\<close>: the subscript is evaluated only when the
  membership test holds.
\<close>

definition in_and_truthy :: "pydict \<Rightarrow> string \<Rightarrow> bool option" where
  "in_and_truthy item k =
     (if contains item k then map_option truthy (getitem item k) else Some False)"

definition section_sign :: string where
  "section_sign = [CHR 0xC2, CHR 0xA7]"

section \<open>The reference synthesizer\<close>

text \<open>
  \<^verbatim>\<open>calculate_cfr_ref\<close>, lines 509 to 593. The result is \<open>None\<close> when the Python
  raises. The two calls of \<^verbatim>\<open>logger.warning\<close> write to the log only.
\<close>

definition appendix_ref :: "pydict \<Rightarrow> string \<Rightarrow> string option" where
  "appendix_ref item base_ref =
     do {
       c1 \<leftarrow> in_and_truthy item ''section_identifier'';
       if c1 then do {
         section_id \<leftarrow> getitem item ''section_identifier'';
         let appendix_id = dict_get item ''appendix_identifier'' (JStr '''');
         Some (if truthy appendix_id
               then base_ref @ '' '' @ section_sign @ py_str section_id
                      @ '' ( '' @ py_str appendix_id @ '')''
               else base_ref @ '' '' @ section_sign @ py_str section_id)
       } else do {
         c2 \<leftarrow> in_and_truthy item ''part_identifier'';
         if c2 then do {
           part_id \<leftarrow> getitem item ''part_identifier'';
           let appendix_id = dict_get item ''appendix_identifier'' (JStr '''');
           Some (if truthy appendix_id
                 then base_ref @ '' pt'' @ py_str part_id @ '' ( '' @ py_str appendix_id @ '')''
                 else base_ref @ '' pt'' @ py_str part_id)
         } else do {
           let appendix_id = dict_get item ''appendix_identifier'' (JStr '''');
           Some (if truthy appendix_id
                 then base_ref @ '' ( '' @ py_str appendix_id @ '')''
                 else base_ref)
         }
       }
     }"

definition subject_group_base :: "pydict \<Rightarrow> string \<Rightarrow> string option" where
  "subject_group_base item base_ref =
     do {
       c1 \<leftarrow> in_and_truthy item ''appendix_identifier'';
       if c1 then do {
         let section_id = dict_get item ''section_identifier'' (JStr '''');
         appendix_id \<leftarrow> getitem item ''appendix_identifier'';
         Some (if truthy section_id
               then base_ref @ '' '' @ section_sign @ py_str section_id
                      @ '' ( '' @ py_str appendix_id @ '')''
               else base_ref @ '' ( '' @ py_str appendix_id @ '')'')
       } else do {
         c2 \<leftarrow> in_and_truthy item ''section_identifier'';
         if c2 then do {
           section_id \<leftarrow> getitem item ''section_identifier'';
           Some (base_ref @ '' '' @ section_sign @ py_str section_id)
         } else do {
           c3 \<leftarrow> in_and_truthy item ''subpart_identifier'';
           if c3 then do {
             let part_id = dict_get item ''part_identifier'' (JStr '''');
             subpart_id \<leftarrow> getitem item ''subpart_identifier'';
             Some (if truthy part_id
                   then base_ref @ '' pt'' @ py_str part_id @ ''-'' @ py_str subpart_id
                   else base_ref @ '' (Subpart '' @ py_str subpart_id @ '')'')
           } else do {
             c4 \<leftarrow> in_and_truthy item ''part_identifier'';
             if c4 then do {
               part_id \<leftarrow> getitem item ''part_identifier'';
               Some (base_ref @ '' pt'' @ py_str part_id)
             } else do {
               c5 \<leftarrow> in_and_truthy item ''subchapter_identifier'';
               if c5 then do {
                 let chapter_id = dict_get item ''chapter_identifier'' (JStr '''');
                 subchapter_id \<leftarrow> getitem item ''subchapter_identifier'';
                 Some (if truthy chapter_id
                       then base_ref @ '' ch'' @ py_str chapter_id @ ''-'' @ py_str subchapter_id
                       else base_ref @ '' (Subchapter '' @ py_str subchapter_id @ '')'')
               } else Some base_ref
             }
           }
         }
       }
     }"

definition subject_group_ref :: "pydict \<Rightarrow> string \<Rightarrow> string option" where
  "subject_group_ref item base_ref =
     (let subj_grp_id = dict_get item ''subject_group_identifier'' (JStr '''');
          subj_grp_suffix =
            (if truthy subj_grp_id then '' (Subj Grp '' @ py_str subj_grp_id @ '')'' else [])
      in do {
        base \<leftarrow> subject_group_base item base_ref;
        Some (base @ subj_grp_suffix)
      })"

definition calculate_cfr_ref :: "pydict \<Rightarrow> string option" where
  "calculate_cfr_ref item =
     (let hierarchy_type = dict_get item ''hierarchy_type'' JNull;
          title_id = dict_get item ''title_identifier'' (JStr '''')
      in if \<not> truthy title_id then Some (''CFR '' @ py_str hierarchy_type)
         else
          (let base_ref = py_str title_id @ '' CFR'' in
           if hierarchy_type = JStr ''title'' then Some base_ref
           else if hierarchy_type = JStr ''chapter'' then
             (let chapter_id = dict_get item ''chapter_identifier'' (JStr '''')
              in Some (if truthy chapter_id then base_ref @ '' ch'' @ py_str chapter_id
                       else base_ref))
           else if hierarchy_type = JStr ''subchapter'' then
             (let chapter_id = dict_get item ''chapter_identifier'' (JStr '''');
                  subchapter_id = dict_get item ''subchapter_identifier'' (JStr '''')
              in if truthy chapter_id \<and> truthy subchapter_id
                 then Some (base_ref @ '' ch'' @ py_str chapter_id @ ''-'' @ py_str subchapter_id)
                 else Some base_ref)
           else if hierarchy_type = JStr ''part'' then
             (let part_id = dict_get item ''part_identifier'' (JStr '''')
              in Some (if truthy part_id then base_ref @ '' pt'' @ py_str part_id
                       else base_ref))
           else if hierarchy_type = JStr ''subpart'' then
             (let part_id = dict_get item ''part_identifier'' (JStr '''');
                  subpart_id = dict_get item ''subpart_identifier'' (JStr '''')
              in if truthy part_id \<and> truthy subpart_id
                 then Some (base_ref @ '' pt'' @ py_str part_id @ ''-'' @ py_str subpart_id)
                 else Some base_ref)
           else if hierarchy_type = JStr ''section'' then
             (let section_id = dict_get item ''section_identifier'' (JStr '''')
              in Some (if truthy section_id
                       then base_ref @ '' '' @ section_sign @ py_str section_id
                       else base_ref))
           else if hierarchy_type = JStr ''appendix'' then appendix_ref item base_ref
           else if hierarchy_type = JStr ''subject_group'' then subject_group_ref item base_ref
           else Some (base_ref @ '' ('' @ py_str hierarchy_type @ '')'')))"

section \<open>The flattener\<close>

text \<open>
  \<^verbatim>\<open>flatten_all_elements_with_full_hierarchy\<close>, lines 597 to 645. The Python mutates
  three objects: the node (the unwanted keys are deleted in place), the list
  \<^verbatim>\<open>results\<close> and the one-element list \<^verbatim>\<open>order_id\<close>. The model passes each of
  them in and returns it updated. The parent chain holds the dictionaries of the
  ancestors as they are when the descendant reads them, that is, after their own
  unwanted keys were deleted; their entry \<^verbatim>\<open>children\<close> is skipped by the loop that
  reads them.
\<close>

definition remove_list :: "string list" where
  "remove_list = [''size'', ''volumes'', ''descendant_range'']"

definition remove_unwanted :: "pydict \<Rightarrow> pydict" where
  "remove_unwanted d =
     fold (\<lambda>key d. if contains d key then AList.delete key d else d) remove_list d"

text \<open>\<^verbatim>\<open>prefix = node.get("type", "root")\<close>, as the f-string writes it.\<close>

definition prefix_of :: "pydict \<Rightarrow> string" where
  "prefix_of d = py_str (dict_get d ''type'' (JStr ''root''))"

definition add_ancestor_fields :: "pydict \<Rightarrow> pydict \<Rightarrow> pydict" where
  "add_ancestor_fields ancestor combined =
     fold (\<lambda>(k, v) acc.
             if k \<noteq> ''children''
             then AList.update (prefix_of ancestor @ ''_'' @ k) v acc else acc)
          ancestor combined"

definition combined_parent_fields :: "pydict list \<Rightarrow> pydict" where
  "combined_parent_fields parent_chain = fold add_ancestor_fields parent_chain []"

definition own_fields :: "pydict \<Rightarrow> pydict" where
  "own_fields d =
     fold (\<lambda>(k, v) acc.
             if k \<notin> set [''children'', ''type'']
             then AList.update (prefix_of d @ ''_'' @ k) v acc else acc)
          d []"

text \<open>\<^verbatim>\<open>d.update(other)\<close>: the entries of \<open>other\<close> are stored into \<open>d\<close> in order.\<close>

definition dict_update :: "pydict \<Rightarrow> pydict \<Rightarrow> pydict" where
  "dict_update d other = fold (\<lambda>(k, v). AList.update k v) other d"

text \<open>\<^verbatim>\<open>node.get("children", [])\<close>.\<close>

definition get_children :: "node list option \<Rightarrow> node list" where
  "get_children cs = (case cs of None \<Rightarrow> [] | Some kids \<Rightarrow> kids)"

text \<open>Lines 609 to 637: the record of one node, from its dictionary after the deletion.\<close>

definition build_element ::
  "pydict \<Rightarrow> node list \<Rightarrow> pydict list \<Rightarrow> int \<Rightarrow> int \<Rightarrow> pydict option" where
  "build_element d kids parent_chain level order_id =
     (let element = dict_update (own_fields d) (combined_parent_fields parent_chain);
          element = AList.update ''hierarchy_level'' (JInt level) element;
          element = AList.update ''hierarchy_type'' (dict_get d ''type'' JNull) element;
          element = AList.update ''order_id'' (JInt order_id) element;
          element = AList.update ''is_leaf_node'' (JBool (length kids = 0)) element
      in do {
        cfr_ref \<leftarrow> calculate_cfr_ref element;
        Some (AList.update ''cfr_ref'' (JStr cfr_ref) element)
      })"

function flatten ::
  "node \<Rightarrow> pydict list \<Rightarrow> pydict list \<Rightarrow> int \<Rightarrow> int \<Rightarrow> (pydict list \<times> node \<times> int) option"
and flatten_children ::
  "node list \<Rightarrow> pydict list \<Rightarrow> pydict list \<Rightarrow> int \<Rightarrow> int
     \<Rightarrow> (pydict list \<times> node list \<times> int) option"
where
  "flatten (Node d cs) results parent_chain level order_id =
     (let d' = remove_unwanted d in
      do {
        element \<leftarrow> build_element d' (get_children cs) parent_chain level order_id;
        (results', kids', order_id') \<leftarrow>
          flatten_children (get_children cs) (results @ [element]) (parent_chain @ [d'])
            (level + 1) (order_id + 1);
        Some (results', Node d' (map_option (\<lambda>_. kids') cs), order_id')
      })"
| "flatten_children [] results parent_chain level order_id = Some (results, [], order_id)"
| "flatten_children (child # rest) results parent_chain level order_id =
     do {
       (results', child', order_id') \<leftarrow> flatten child results parent_chain level order_id;
       (results'', rest', order_id'') \<leftarrow>
         flatten_children rest results' parent_chain level order_id';
       Some (results'', child' # rest', order_id'')
     }"
  by pat_completeness auto
termination
  by (relation "measure (\<lambda>x. case x of
                    Inl (n, _) \<Rightarrow> size n
                  | Inr (ns, _) \<Rightarrow> size_list size ns)")
     (auto simp: get_children_def split: option.splits)

text \<open>
  The default \<^verbatim>\<open>order_id=[1]\<close> is one list object, made when the function is defined
  and shared by every call that leaves the parameter out. A call
  \<^verbatim>\<open>flatten_all_elements_with_full_hierarchy(structure_json)\<close>, as line 223 makes it for
  each title, reads the current content of that list and leaves the new content behind.
\<close>

definition order_id_default_initial :: int where
  "order_id_default_initial = 1"

definition flatten_call :: "int \<Rightarrow> node \<Rightarrow> (pydict list \<times> node \<times> int) option" where
  "flatten_call order_id_default root = flatten root [] [] 0 order_id_default"

text \<open>The list a call returns, and one field of each of its records.\<close>

definition flatten_records :: "int \<Rightarrow> node \<Rightarrow> pydict list option" where
  "flatten_records order_id_default root = map_option fst (flatten_call order_id_default root)"

definition field :: "string \<Rightarrow> pydict list \<Rightarrow> jval option list" where
  "field k recs = map (\<lambda>r. map_of r k) recs"

text \<open>
  Two calls in one process, as the loop of lines 655 to 662 makes them through
  \<^verbatim>\<open>get_parts_and_structure\<close>: the second call finds the default list as the first left
  it. The result is the two lists of records.
\<close>

definition flatten_twice :: "node \<Rightarrow> node \<Rightarrow> (pydict list \<times> pydict list) option" where
  "flatten_twice root1 root2 =
     do {
       (recs1, root1', order_id_default) \<leftarrow> flatten_call order_id_default_initial root1;
       (recs2, root2', order_id_default') \<leftarrow> flatten_call order_id_default root2;
       Some (recs1, recs2)
     }"

section \<open>Inputs of the scenarios\<close>

text \<open>Scenario A, with the attribute names the specification gives.\<close>

definition scenario_a_spec :: node where
  "scenario_a_spec =
     Node [(''type'', JStr ''title''), (''title_identifier'', JStr ''21'')]
       (Some [Node [(''type'', JStr ''part''), (''part_identifier'', JStr ''100'')]
         (Some [Node [(''type'', JStr ''section''), (''section_identifier'', JStr ''100.1'')]
           (Some [])])])"

text \<open>
  Scenario A with the attribute name of the structure document: each node carries its
  identifier under the key \<^verbatim>\<open>identifier\<close>.
\<close>

definition scenario_a_identifier :: node where
  "scenario_a_identifier =
     Node [(''type'', JStr ''title''), (''identifier'', JStr ''21'')]
       (Some [Node [(''type'', JStr ''part''), (''identifier'', JStr ''100'')]
         (Some [Node [(''type'', JStr ''section''), (''identifier'', JStr ''100.1'')]
           (Some [])])])"

text \<open>The same tree with the keys that the traversal deletes.\<close>

definition scenario_a_ecfr :: node where
  "scenario_a_ecfr =
     Node [(''type'', JStr ''title''), (''identifier'', JStr ''21''), (''size'', JInt 5),
           (''volumes'', JNull), (''descendant_range'', JStr ''1 - 1499'')]
       (Some [Node [(''type'', JStr ''part''), (''identifier'', JStr ''100''),
                    (''size'', JInt 3)]
         (Some [Node [(''type'', JStr ''section''), (''identifier'', JStr ''100.1'')]
           (Some [])])])"

definition single_title :: node where
  "single_title = Node [(''type'', JStr ''title''), (''identifier'', JStr ''21'')] (Some [])"

text \<open>
  A subject group inside a subject group, under title 26: both groups produce the key
  \<^verbatim>\<open>subject_group_identifier\<close>.
\<close>

definition nested_groups :: node where
  "nested_groups =
     Node [(''type'', JStr ''title''), (''identifier'', JStr ''26'')]
       (Some [Node [(''type'', JStr ''subject_group''), (''identifier'', JStr ''A'')]
         (Some [Node [(''type'', JStr ''subject_group''), (''identifier'', JStr ''B'')]
           (Some [])])])"

text \<open>An ancestor whose type is \<^verbatim>\<open>hierarchy\<close>: its type is namespaced to a reserved key.\<close>

definition hierarchy_tree :: node where
  "hierarchy_tree =
     Node [(''type'', JStr ''hierarchy'')]
       (Some [Node [(''type'', JStr ''part''), (''identifier'', JStr ''100'')] (Some [])])"

text \<open>
  A nearer ancestor that produces the key of a farther one: the root of type \<^verbatim>\<open>a_b\<close>
  gives \<^verbatim>\<open>a_b_type\<close>, and so does the attribute \<^verbatim>\<open>b_type\<close> of its child of type \<^verbatim>\<open>a\<close>.
\<close>

definition shadowed_type_tree :: node where
  "shadowed_type_tree =
     Node [(''type'', JStr ''a_b'')]
       (Some [Node [(''type'', JStr ''a''), (''b_type'', JStr ''other'')]
         (Some [Node [(''type'', JStr ''section'')] (Some [])])])"

text \<open>A title with two parts, the first with a section below it.\<close>

definition family_tree :: node where
  "family_tree =
     Node [(''type'', JStr ''title''), (''identifier'', JStr ''21'')]
       (Some [Node [(''type'', JStr ''part''), (''identifier'', JStr ''100'')]
                (Some [Node [(''type'', JStr ''section''), (''identifier'', JStr ''100.1'')]
                         None]),
              Node [(''type'', JStr ''part''), (''identifier'', JStr ''200'')] (Some [])])"

section \<open>The synthesizer on any record\<close>

text \<open>
  CPython refuses to convert an integer of more than 4300 decimal digits to a string (the
  default of \<^verbatim>\<open>sys.get_int_max_str_digits()\<close>): the f-string raises \<^verbatim>\<open>ValueError\<close>.
  \<^verbatim>\<open>json.loads\<close> refuses the same integers, so no record that the flattener builds from
  a decoded structure document holds one, and \<open>py_str\<close> above is the f-string on such
  records. A record passed to \<^verbatim>\<open>calculate_cfr_ref\<close> directly may hold any integer;
  \<open>calculate_cfr_ref_direct\<close> is the same function, lines 509 to 593, with the conversion
  that can raise. The result is \<open>None\<close> when the Python raises.
\<close>

definition too_long_int :: int where
  "too_long_int = 10 ^ 4300"

definition str_raises :: "jval \<Rightarrow> bool" where
  "str_raises v = (case v of JInt i \<Rightarrow> too_long_int \<le> \<bar>i\<bar> | _ \<Rightarrow> False)"

definition fmt :: "jval \<Rightarrow> string option" where
  "fmt v = (if str_raises v then None else Some (py_str v))"

definition appendix_ref_direct :: "pydict \<Rightarrow> string \<Rightarrow> string option" where
  "appendix_ref_direct item base_ref =
     do {
       c1 \<leftarrow> in_and_truthy item ''section_identifier'';
       if c1 then do {
         section_id \<leftarrow> getitem item ''section_identifier'';
         let appendix_id = dict_get item ''appendix_identifier'' (JStr '''');
         if truthy appendix_id
         then do {
           s \<leftarrow> fmt section_id;
           a \<leftarrow> fmt appendix_id;
           Some (base_ref @ '' '' @ section_sign @ s @ '' ( '' @ a @ '')'')
         } else do {
           s \<leftarrow> fmt section_id;
           Some (base_ref @ '' '' @ section_sign @ s)
         }
       } else do {
         c2 \<leftarrow> in_and_truthy item ''part_identifier'';
         if c2 then do {
           part_id \<leftarrow> getitem item ''part_identifier'';
           let appendix_id = dict_get item ''appendix_identifier'' (JStr '''');
           if truthy appendix_id
           then do {
             p \<leftarrow> fmt part_id;
             a \<leftarrow> fmt appendix_id;
             Some (base_ref @ '' pt'' @ p @ '' ( '' @ a @ '')'')
           } else do {
             p \<leftarrow> fmt part_id;
             Some (base_ref @ '' pt'' @ p)
           }
         } else do {
           let appendix_id = dict_get item ''appendix_identifier'' (JStr '''');
           if truthy appendix_id
           then do {
             a \<leftarrow> fmt appendix_id;
             Some (base_ref @ '' ( '' @ a @ '')'')
           } else Some base_ref
         }
       }
     }"

definition subject_group_base_direct :: "pydict \<Rightarrow> string \<Rightarrow> string option" where
  "subject_group_base_direct item base_ref =
     do {
       c1 \<leftarrow> in_and_truthy item ''appendix_identifier'';
       if c1 then do {
         let section_id = dict_get item ''section_identifier'' (JStr '''');
         appendix_id \<leftarrow> getitem item ''appendix_identifier'';
         if truthy section_id
         then do {
           s \<leftarrow> fmt section_id;
           a \<leftarrow> fmt appendix_id;
           Some (base_ref @ '' '' @ section_sign @ s @ '' ( '' @ a @ '')'')
         } else do {
           a \<leftarrow> fmt appendix_id;
           Some (base_ref @ '' ( '' @ a @ '')'')
         }
       } else do {
         c2 \<leftarrow> in_and_truthy item ''section_identifier'';
         if c2 then do {
           section_id \<leftarrow> getitem item ''section_identifier'';
           s \<leftarrow> fmt section_id;
           Some (base_ref @ '' '' @ section_sign @ s)
         } else do {
           c3 \<leftarrow> in_and_truthy item ''subpart_identifier'';
           if c3 then do {
             let part_id = dict_get item ''part_identifier'' (JStr '''');
             subpart_id \<leftarrow> getitem item ''subpart_identifier'';
             if truthy part_id
             then do {
               p \<leftarrow> fmt part_id;
               sp \<leftarrow> fmt subpart_id;
               Some (base_ref @ '' pt'' @ p @ ''-'' @ sp)
             } else do {
               sp \<leftarrow> fmt subpart_id;
               Some (base_ref @ '' (Subpart '' @ sp @ '')'')
             }
           } else do {
             c4 \<leftarrow> in_and_truthy item ''part_identifier'';
             if c4 then do {
               part_id \<leftarrow> getitem item ''part_identifier'';
               p \<leftarrow> fmt part_id;
               Some (base_ref @ '' pt'' @ p)
             } else do {
               c5 \<leftarrow> in_and_truthy item ''subchapter_identifier'';
               if c5 then do {
                 let chapter_id = dict_get item ''chapter_identifier'' (JStr '''');
                 subchapter_id \<leftarrow> getitem item ''subchapter_identifier'';
                 if truthy chapter_id
                 then do {
                   ch \<leftarrow> fmt chapter_id;
                   sc \<leftarrow> fmt subchapter_id;
                   Some (base_ref @ '' ch'' @ ch @ ''-'' @ sc)
                 } else do {
                   sc \<leftarrow> fmt subchapter_id;
                   Some (base_ref @ '' (Subchapter '' @ sc @ '')'')
                 }
               } else Some base_ref
             }
           }
         }
       }
     }"

definition subject_group_ref_direct :: "pydict \<Rightarrow> string \<Rightarrow> string option" where
  "subject_group_ref_direct item base_ref =
     (let subj_grp_id = dict_get item ''subject_group_identifier'' (JStr '''')
      in do {
        subj_grp_suffix \<leftarrow>
          (if truthy subj_grp_id
           then do { g \<leftarrow> fmt subj_grp_id; Some ('' (Subj Grp '' @ g @ '')'') }
           else Some []);
        base \<leftarrow> subject_group_base_direct item base_ref;
        Some (base @ subj_grp_suffix)
      })"

definition calculate_cfr_ref_direct :: "pydict \<Rightarrow> string option" where
  "calculate_cfr_ref_direct item =
     (let hierarchy_type = dict_get item ''hierarchy_type'' JNull;
          title_id = dict_get item ''title_identifier'' (JStr '''')
      in if \<not> truthy title_id
         then do { t \<leftarrow> fmt hierarchy_type; Some (''CFR '' @ t) }
         else do {
           title \<leftarrow> fmt title_id;
           let base_ref = title @ '' CFR'';
           if hierarchy_type = JStr ''title'' then Some base_ref
           else if hierarchy_type = JStr ''chapter'' then
             (let chapter_id = dict_get item ''chapter_identifier'' (JStr '''')
              in if truthy chapter_id
                 then do { ch \<leftarrow> fmt chapter_id; Some (base_ref @ '' ch'' @ ch) }
                 else Some base_ref)
           else if hierarchy_type = JStr ''subchapter'' then
             (let chapter_id = dict_get item ''chapter_identifier'' (JStr '''');
                  subchapter_id = dict_get item ''subchapter_identifier'' (JStr '''')
              in if truthy chapter_id \<and> truthy subchapter_id
                 then do {
                   ch \<leftarrow> fmt chapter_id;
                   sc \<leftarrow> fmt subchapter_id;
                   Some (base_ref @ '' ch'' @ ch @ ''-'' @ sc)
                 }
                 else Some base_ref)
           else if hierarchy_type = JStr ''part'' then
             (let part_id = dict_get item ''part_identifier'' (JStr '''')
              in if truthy part_id
                 then do { p \<leftarrow> fmt part_id; Some (base_ref @ '' pt'' @ p) }
                 else Some base_ref)
           else if hierarchy_type = JStr ''subpart'' then
             (let part_id = dict_get item ''part_identifier'' (JStr '''');
                  subpart_id = dict_get item ''subpart_identifier'' (JStr '''')
              in if truthy part_id \<and> truthy subpart_id
                 then do {
                   p \<leftarrow> fmt part_id;
                   sp \<leftarrow> fmt subpart_id;
                   Some (base_ref @ '' pt'' @ p @ ''-'' @ sp)
                 }
                 else Some base_ref)
           else if hierarchy_type = JStr ''section'' then
             (let section_id = dict_get item ''section_identifier'' (JStr '''')
              in if truthy section_id
                 then do { s \<leftarrow> fmt section_id; Some (base_ref @ '' '' @ section_sign @ s) }
                 else Some base_ref)
           else if hierarchy_type = JStr ''appendix'' then appendix_ref_direct item base_ref
           else if hierarchy_type = JStr ''subject_group''
             then subject_group_ref_direct item base_ref
           else do { t \<leftarrow> fmt hierarchy_type; Some (base_ref @ '' ('' @ t @ '')'') }
         })"

text \<open>A record all of whose integers can be converted.\<close>

definition ints_convertible :: "pydict \<Rightarrow> bool" where
  "ints_convertible item = list_all (\<lambda>(k, v). \<not> str_raises v) item"

section \<open>The specification's reading of the synthesizer\<close>

text \<open>
  An identifier is present when the key exists in the record and its value is truthy.
\<close>

definition present :: "pydict \<Rightarrow> string \<Rightarrow> bool" where
  "present item k = (case map_of item k of None \<Rightarrow> False | Some v \<Rightarrow> truthy v)"

definition ident :: "pydict \<Rightarrow> string \<Rightarrow> string" where
  "ident item k = py_str (dict_get item k (JStr ''''))"

text \<open>
  The context base of a subject group, written from the priority order of the
  specification: appendix (with or without section), section alone, subpart (with or
  without part), part alone, subchapter (with or without chapter), else the bare base.
\<close>

definition subject_group_context_spec :: "pydict \<Rightarrow> string \<Rightarrow> string" where
  "subject_group_context_spec item base_ref =
     (if present item ''appendix_identifier'' then
        (if present item ''section_identifier''
         then base_ref @ '' '' @ section_sign @ ident item ''section_identifier''
                @ '' ( '' @ ident item ''appendix_identifier'' @ '')''
         else base_ref @ '' ( '' @ ident item ''appendix_identifier'' @ '')'')
      else if present item ''section_identifier'' then
        base_ref @ '' '' @ section_sign @ ident item ''section_identifier''
      else if present item ''subpart_identifier'' then
        (if present item ''part_identifier''
         then base_ref @ '' pt'' @ ident item ''part_identifier''
                @ ''-'' @ ident item ''subpart_identifier''
         else base_ref @ '' (Subpart '' @ ident item ''subpart_identifier'' @ '')'')
      else if present item ''part_identifier'' then
        base_ref @ '' pt'' @ ident item ''part_identifier''
      else if present item ''subchapter_identifier'' then
        (if present item ''chapter_identifier''
         then base_ref @ '' ch'' @ ident item ''chapter_identifier''
                @ ''-'' @ ident item ''subchapter_identifier''
         else base_ref @ '' (Subchapter '' @ ident item ''subchapter_identifier'' @ '')'')
      else base_ref)"

definition subj_grp_suffix_spec :: "pydict \<Rightarrow> string" where
  "subj_grp_suffix_spec item =
     (if present item ''subject_group_identifier''
      then '' (Subj Grp '' @ ident item ''subject_group_identifier'' @ '')'' else [])"

section \<open>The specification's reading of the flattener\<close>

text \<open>
  What the traversal leaves of the input: each node without the three unwanted keys, and
  nothing else changed.
\<close>

fun strip_tree :: "node \<Rightarrow> node" where
  "strip_tree (Node d cs) =
     Node (filter (\<lambda>(k, v). k \<notin> set remove_list) d) (map_option (map strip_tree) cs)"

text \<open>
  Pre-order over the input: the node, then the subtree of each child of its
  \<^verbatim>\<open>children\<close> list in the original order; a node without the key has no child. A visit
  is the node with its ancestors from the root down (as the input has them) and its level.
\<close>

function preorder :: "node \<Rightarrow> pydict list \<Rightarrow> int \<Rightarrow> (node \<times> pydict list \<times> int) list" where
  "preorder (Node d None) chain level = [(Node d None, chain, level)]"
| "preorder (Node d (Some kids)) chain level =
     (Node d (Some kids), chain, level)
       # concat (map (\<lambda>c. preorder c (chain @ [d]) (level + 1)) kids)"
  by pat_completeness auto
termination
  by (relation "measure (\<lambda>(n, _). size n)")
     (auto dest: size_list_estimation'[where f=size])

text \<open>The record of one visit, given the value of the counter when the node is reached.\<close>

definition record_of :: "node \<Rightarrow> pydict list \<Rightarrow> int \<Rightarrow> int \<Rightarrow> pydict" where
  "record_of n chain level order_id =
     the (build_element (remove_unwanted (attrs n)) (get_children (children n))
            (map remove_unwanted chain) level order_id)"

text \<open>The records of a sequence of visits, the counter going up by one at each.\<close>

fun records_from :: "int \<Rightarrow> (node \<times> pydict list \<times> int) list \<Rightarrow> pydict list" where
  "records_from order_id [] = []"
| "records_from order_id ((n, chain, level) # vs) =
     record_of n chain level order_id # records_from (order_id + 1) vs"

text \<open>
  The namespaced fields a dictionary contributes: every entry but the excluded keys, its
  key prefixed with the type of the dictionary.
\<close>

definition namespaced :: "string list \<Rightarrow> pydict \<Rightarrow> pydict" where
  "namespaced excl d =
     map (\<lambda>(k, v). (prefix_of d @ ''_'' @ k, v)) (filter (\<lambda>(k, v). k \<notin> set excl) d)"

definition own_items :: "pydict \<Rightarrow> pydict" where
  "own_items d = namespaced [''children'', ''type''] (remove_unwanted d)"

definition ancestor_items :: "pydict list \<Rightarrow> pydict" where
  "ancestor_items chain =
     concat (map (\<lambda>a. namespaced [''children''] (remove_unwanted a)) chain)"

definition reserved_keys :: "string list" where
  "reserved_keys =
     [''hierarchy_level'', ''hierarchy_type'', ''order_id'', ''is_leaf_node'', ''cfr_ref'']"

section \<open>Totality of the synthesizer\<close>

lemma in_and_truthy_total:
  "in_and_truthy item k = Some (case map_of item k of None \<Rightarrow> False | Some v \<Rightarrow> truthy v)"
  by (cases "map_of item k") (simp_all add: in_and_truthy_def contains_def getitem_def)

lemma getitem_guarded:
  "(case map_of item k of None \<Rightarrow> False | Some v \<Rightarrow> truthy v) \<Longrightarrow>
   getitem item k = Some (dict_get item k dflt)"
  by (cases "map_of item k") (simp_all add: getitem_def dict_get_def)

lemma appendix_ref_total: "\<exists>s. appendix_ref item base_ref = Some s"
  by (auto simp: appendix_ref_def in_and_truthy_total Let_def
      getitem_guarded [where dflt = JNull])

lemma subject_group_base_total: "\<exists>s. subject_group_base item base_ref = Some s"
  by (auto simp: subject_group_base_def in_and_truthy_total Let_def
      getitem_guarded [where dflt = JNull])

lemma subject_group_ref_total: "\<exists>s. subject_group_ref item base_ref = Some s"
  using subject_group_base_total [of item base_ref]
  by (auto simp: subject_group_ref_def Let_def)

section \<open>Degraded references\<close>

lemma truthy_get_present: "truthy (dict_get item k (JStr '''')) = present item k"
  by (cases "map_of item k") (simp_all add: dict_get_def present_def)

text \<open>
  C5, as the code has it. When \<^verbatim>\<open>title_identifier\<close> is absent or falsy, the reference is
  \<^verbatim>\<open>CFR\<close>, a space, and what the f-string writes for \<^verbatim>\<open>item.get("hierarchy_type")\<close>:
  the type itself when it is a string, and \<^verbatim>\<open>None\<close> when the key is absent or null.
\<close>

theorem calculate_cfr_ref_degraded:
  assumes "\<not> present item ''title_identifier''"
  shows "calculate_cfr_ref item =
     Some (''CFR '' @ (case map_of item ''hierarchy_type'' of
                         None \<Rightarrow> ''None'' | Some v \<Rightarrow> py_str v))"
  using assms
  by (cases "map_of item ''hierarchy_type''")
     (simp_all add: calculate_cfr_ref_def Let_def truthy_get_present,
      simp_all add: dict_get_def)

theorem calculate_cfr_ref_degraded_witness:
  "calculate_cfr_ref [(''part_identifier'', JStr ''100''), (''hierarchy_type'', JStr ''part'')]
     = Some ''CFR part''
   \<and> calculate_cfr_ref [(''title_identifier'', JStr ''''), (''hierarchy_type'', JNull)]
     = Some ''CFR None''
   \<and> calculate_cfr_ref [(''part_identifier'', JStr ''100'')] = Some ''CFR None''"
  using
    calculate_cfr_ref_degraded
      [of "[(''part_identifier'', JStr ''100''), (''hierarchy_type'', JStr ''part'')]"]
    calculate_cfr_ref_degraded
      [of "[(''title_identifier'', JStr ''''), (''hierarchy_type'', JNull)]"]
    calculate_cfr_ref_degraded [of "[(''part_identifier'', JStr ''100'')]"]
  by (simp add: present_def)

text \<open>
  The claim C5 as the specification words it fails: a record with neither a title
  identifier nor a type yields \<^verbatim>\<open>CFR None\<close>, not \<^verbatim>\<open>CFR unknown\<close>.
\<close>

theorem calculate_cfr_ref_unknown_counterexample:
  "map_of [(''part_identifier'', JStr ''100'')] ''title_identifier'' = None
   \<and> map_of [(''part_identifier'', JStr ''100'')] ''hierarchy_type'' = None
   \<and> calculate_cfr_ref [(''part_identifier'', JStr ''100'')] \<noteq> Some ''CFR unknown''"
  by (simp add: calculate_cfr_ref_def dict_get_def)

section \<open>Subject groups\<close>

lemma in_and_truthy_present: "in_and_truthy item k = Some (present item k)"
  by (simp add: in_and_truthy_total present_def)

lemma getitem_present: "present item k \<Longrightarrow> getitem item k = Some (dict_get item k dflt)"
  by (cases "map_of item k") (simp_all add: getitem_def dict_get_def present_def)

lemma subject_group_base_spec:
  "subject_group_base item base_ref = Some (subject_group_context_spec item base_ref)"
  by (simp add: subject_group_base_def subject_group_context_spec_def in_and_truthy_present
      getitem_present [where dflt = "JStr ''''"] truthy_get_present ident_def Let_def)

lemma calculate_subject_group:
  assumes "present item ''title_identifier''"
    and "map_of item ''hierarchy_type'' = Some (JStr ''subject_group'')"
  shows "calculate_cfr_ref item =
     Some (subject_group_context_spec item (ident item ''title_identifier'' @ '' CFR'')
           @ subj_grp_suffix_spec item)"
proof -
  have ty: "dict_get item ''hierarchy_type'' JNull = JStr ''subject_group''"
    using assms(2) by (simp add: dict_get_def)
  show ?thesis
    using assms(1)
    by (simp add: calculate_cfr_ref_def Let_def truthy_get_present subject_group_ref_def
        subject_group_base_spec ident_def ty subj_grp_suffix_spec_def)
qed

text \<open>
  C6. For a record with a truthy title identifier and type \<^verbatim>\<open>subject_group\<close>, the
  reference is the context base chosen in the priority order appendix, section, subpart,
  part, subchapter, bare base, followed by the subject group suffix exactly when the
  subject group identifier is truthy.
\<close>

theorem subject_group_priority_order:
  assumes "present item ''title_identifier''"
    and "map_of item ''hierarchy_type'' = Some (JStr ''subject_group'')"
  shows "calculate_cfr_ref item =
     Some (subject_group_context_spec item (ident item ''title_identifier'' @ '' CFR'')
           @ (if present item ''subject_group_identifier''
              then '' (Subj Grp '' @ ident item ''subject_group_identifier'' @ '')''
              else []))"
  using calculate_subject_group [OF assms] by (simp add: subj_grp_suffix_spec_def)

theorem subject_group_priority_order_witness:
  "calculate_cfr_ref
     [(''part_identifier'', JStr ''200''), (''title_identifier'', JStr ''26''),
      (''subject_group_identifier'', JStr ''3''), (''hierarchy_type'', JStr ''subject_group'')]
   = Some ''26 CFR pt200 (Subj Grp 3)''"
  using subject_group_priority_order
    [of "[(''part_identifier'', JStr ''200''), (''title_identifier'', JStr ''26''),
          (''subject_group_identifier'', JStr ''3''),
          (''hierarchy_type'', JStr ''subject_group'')]"]
  by (simp add: present_def ident_def dict_get_def subject_group_context_spec_def)

text \<open>
  C10. A subject group with a truthy subpart identifier and no truthy part, appendix or
  section identifier has the context base \<^verbatim>\<open>{title_id} CFR (Subpart {subpart})\<close>, and the
  subject group suffix follows exactly when the subject group identifier is truthy.
\<close>

theorem subject_group_subpart_alone:
  assumes "present item ''title_identifier''"
    and "map_of item ''hierarchy_type'' = Some (JStr ''subject_group'')"
    and "present item ''subpart_identifier''"
    and "\<not> present item ''part_identifier''"
    and "\<not> present item ''appendix_identifier''"
    and "\<not> present item ''section_identifier''"
  shows "calculate_cfr_ref item =
     Some (ident item ''title_identifier'' @ '' CFR (Subpart ''
           @ ident item ''subpart_identifier'' @ '')''
           @ (if present item ''subject_group_identifier''
              then '' (Subj Grp '' @ ident item ''subject_group_identifier'' @ '')''
              else []))"
  using calculate_subject_group [OF assms(1,2)] assms(3-6)
  by (simp add: subj_grp_suffix_spec_def subject_group_context_spec_def)

theorem subject_group_subpart_alone_witness:
  "calculate_cfr_ref
     [(''subpart_identifier'', JStr ''B''), (''title_identifier'', JStr ''26''),
      (''part_identifier'', JStr ''''), (''subject_group_identifier'', JStr ''3''),
      (''hierarchy_type'', JStr ''subject_group'')]
   = Some ''26 CFR (Subpart B) (Subj Grp 3)''
   \<and> calculate_cfr_ref
     [(''subpart_identifier'', JStr ''B''), (''title_identifier'', JStr ''26''),
      (''hierarchy_type'', JStr ''subject_group'')]
   = Some ''26 CFR (Subpart B)''"
  using
    subject_group_subpart_alone
      [of "[(''subpart_identifier'', JStr ''B''), (''title_identifier'', JStr ''26''),
            (''part_identifier'', JStr ''''), (''subject_group_identifier'', JStr ''3''),
            (''hierarchy_type'', JStr ''subject_group'')]"]
    subject_group_subpart_alone
      [of "[(''subpart_identifier'', JStr ''B''), (''title_identifier'', JStr ''26''),
            (''hierarchy_type'', JStr ''subject_group'')]"]
  by (simp add: present_def ident_def dict_get_def)

section \<open>The structure of the traversal\<close>

lemma calculate_cfr_ref_returns: "\<exists>s. calculate_cfr_ref item = Some s"
  using appendix_ref_total subject_group_ref_total
  by (simp add: calculate_cfr_ref_def Let_def)

lemma records_from_append:
  "records_from c (xs @ ys) = records_from c xs @ records_from (c + int (length xs)) ys"
  by (induction xs arbitrary: c) (auto simp: algebra_simps)

lemma guarded_delete:
  "(if contains d key then AList.delete key d else d) = filter (\<lambda>(k, v). k \<noteq> key) d"
proof (cases "contains d key")
  case True
  then show ?thesis by (auto simp: AList.delete_eq intro: filter_cong)
next
  case False
  then have "key \<notin> fst ` set d"
    by (simp add: contains_def map_of_eq_None_iff)
  then have "filter (\<lambda>(k, v). k \<noteq> key) d = d"
    by (force simp: filter_id_conv)
  with False show ?thesis by simp
qed

lemma remove_unwanted_filter:
  "remove_unwanted d = filter (\<lambda>(k, v). k \<notin> set remove_list) d"
  unfolding remove_unwanted_def remove_list_def
  by (simp add: guarded_delete) (auto intro: filter_cong)

lemma build_element_total: "\<exists>e. build_element d kids chain level c = Some e"
  using calculate_cfr_ref_returns
  by (simp add: build_element_def Let_def) (metis bind.bind_lunit)

lemma preorder_children:
  "preorder (Node d cs) chain level =
     (Node d cs, chain, level)
       # concat (map (\<lambda>c. preorder c (chain @ [d]) (level + 1)) (get_children cs))"
  by (cases cs) (simp_all add: get_children_def)

lemma flatten_structure:
  "flatten n rs (map remove_unwanted ch) l c =
     Some (rs @ records_from c (preorder n ch l), strip_tree n, c + int (length (preorder n ch l)))"
  "flatten_children ns rs (map remove_unwanted ch) l c =
     Some (rs @ records_from c (concat (map (\<lambda>x. preorder x ch l) ns)), map strip_tree ns,
           c + int (length (concat (map (\<lambda>x. preorder x ch l) ns))))"
proof (induction n rs "map remove_unwanted ch" l c and ns rs "map remove_unwanted ch" l c
    arbitrary: ch and ch rule: flatten_flatten_children.induct)
  case (1 d cs results level order_id)
  obtain e where e: "build_element (remove_unwanted d) (get_children cs)
      (map remove_unwanted ch) level order_id = Some e"
    using build_element_total by blast
  have ih: "flatten_children (get_children cs) (results @ [e])
      (map remove_unwanted (ch @ [d])) (level + 1) (order_id + 1) =
     Some ((results @ [e]) @ records_from (order_id + 1)
              (concat (map (\<lambda>x. preorder x (ch @ [d]) (level + 1)) (get_children cs))),
           map strip_tree (get_children cs),
           (order_id + 1) + int (length
              (concat (map (\<lambda>x. preorder x (ch @ [d]) (level + 1)) (get_children cs)))))"
    using "1.hyps"[OF refl e, of "ch @ [d]"] by simp
  show ?case
    using e ih
    by (cases cs)
       (simp_all add: preorder_children record_of_def remove_unwanted_filter get_children_def
          del: preorder.simps)
next
  case (2 results level order_id)
  show ?case by simp
next
  case (3 child rest results level order_id)
  show ?case
    using "3.hyps"(1)[OF refl] "3.hyps"(2)[OF _ _ _ refl]
    by (simp add: records_from_append algebra_simps)
qed

lemma flatten_call_structure:
  "flatten_call c root =
     Some (records_from c (preorder root [] 0), strip_tree root,
           c + int (length (preorder root [] 0)))"
  using flatten_structure(1) [of root "[]" "[]" 0 c] by (simp add: flatten_call_def)


section \<open>The fields of a record\<close>


lemma map_of_dict_update:
  "map_of (dict_update d other) = map_of d ++ map_of (rev other)"
  unfolding dict_update_def
proof (induction other arbitrary: d)
  case Nil
  show ?case by simp
next
  case (Cons x xs)
  obtain k v where x: "x = (k, v)" by (cases x)
  have "map_of (fold (\<lambda>(k, v). AList.update k v) (x # xs) d)
        = map_of (AList.update k v d) ++ map_of (rev xs)"
    by (simp add: Cons.IH x)
  also have "\<dots> = (map_of d)(k \<mapsto> v) ++ map_of (rev xs)"
    by (simp add: update_conv')
  also have "\<dots> = map_of d ++ ([k \<mapsto> v] ++ map_of (rev xs))"
    by (simp add: fun_eq_iff map_add_def split: option.split)
  also have "\<dots> = map_of d ++ map_of (rev (x # xs))"
    by (simp add: x)
  finally show ?case .
qed

lemma keys_dict_update:
  "fst ` set (dict_update d other) = fst ` set d \<union> fst ` set other"
  unfolding dict_update_def
proof (induction other arbitrary: d)
  case Nil
  show ?case by simp
next
  case (Cons x xs)
  obtain k v where x: "x = (k, v)" by (cases x)
  have "fst ` set (AList.update k v d) = insert k (fst ` set d)"
    by (simp add: dom_update)
  then have "fst ` set (fold (\<lambda>(k, v). AList.update k v) (x # xs) d)
        = insert k (fst ` set d) \<union> fst ` set xs"
    by (simp add: Cons.IH x)
  then show ?case by (simp add: x)
qed

lemma distinct_dict_update:
  "distinct (map fst d) \<Longrightarrow> distinct (map fst (dict_update d other))"
  unfolding dict_update_def
  by (induction other arbitrary: d) (simp_all add: distinct_update split: prod.split)

lemma dict_update_append:
  "dict_update (dict_update d xs) ys = dict_update d (xs @ ys)"
  by (simp add: dict_update_def)

lemma map_of_rev_distinct:
  assumes "distinct (map fst xs)"
  shows "map_of (rev xs) = map_of xs"
proof -
  have "distinct (map fst (rev xs))"
    using assms by (simp add: rev_map [symmetric])
  then show ?thesis
    using assms by (simp add: map_of_inject_set)
qed

lemma fold_namespaced:
  "fold (\<lambda>(k, v) acc. if k \<notin> set excl then AList.update (p @ ''_'' @ k) v acc else acc) kvs acc
   = dict_update acc (map (\<lambda>(k, v). (p @ ''_'' @ k, v)) (filter (\<lambda>(k, v). k \<notin> set excl) kvs))"
  unfolding dict_update_def
  by (induction kvs arbitrary: acc) (simp_all split: prod.split)

lemma own_fields_items:
  "own_fields d = dict_update [] (namespaced [''children'', ''type''] d)"
  unfolding own_fields_def namespaced_def by (rule fold_namespaced)

lemma add_ancestor_fields_items:
  "add_ancestor_fields a combined = dict_update combined (namespaced [''children''] a)"
  using fold_namespaced [of "[''children'']" "prefix_of a" a combined]
  by (simp add: add_ancestor_fields_def namespaced_def)

lemma fold_add_ancestor_fields:
  "fold add_ancestor_fields chain acc =
     dict_update acc (concat (map (namespaced [''children'']) chain))"
proof (induction chain arbitrary: acc)
  case Nil
  show ?case by (simp add: dict_update_def)
next
  case (Cons a chain)
  have "fold add_ancestor_fields (a # chain) acc =
        fold add_ancestor_fields chain (add_ancestor_fields a acc)"
    by simp
  also have "\<dots> = dict_update (add_ancestor_fields a acc)
                      (concat (map (namespaced [''children'']) chain))"
    by (rule Cons.IH)
  also have "\<dots> = dict_update acc (concat (map (namespaced [''children'']) (a # chain)))"
    by (simp add: add_ancestor_fields_items dict_update_append)
  finally show ?case .
qed

lemma combined_parent_fields_items:
  "combined_parent_fields chain = dict_update [] (concat (map (namespaced [''children'']) chain))"
  by (simp add: combined_parent_fields_def fold_add_ancestor_fields)

lemma map_of_merged:
  "map_of (dict_update (own_fields d) (combined_parent_fields chain)) =
     map_of (rev (namespaced [''children'', ''type''] d))
       ++ map_of (rev (concat (map (namespaced [''children'']) chain)))"
proof -
  have dist: "distinct (map fst (combined_parent_fields chain))"
    by (simp add: combined_parent_fields_items distinct_dict_update)
  have "map_of (rev (combined_parent_fields chain)) = map_of (combined_parent_fields chain)"
    by (rule map_of_rev_distinct [OF dist])
  also have "\<dots> = map_of (rev (concat (map (namespaced [''children'']) chain)))"
    by (simp add: combined_parent_fields_items map_of_dict_update)
  finally have anc: "map_of (rev (combined_parent_fields chain)) =
      map_of (rev (concat (map (namespaced [''children'']) chain)))" .
  have own: "map_of (own_fields d) = map_of (rev (namespaced [''children'', ''type''] d))"
    by (simp add: own_fields_items map_of_dict_update)
  show ?thesis
    unfolding map_of_dict_update anc own ..
qed

lemma keys_merged:
  "fst ` set (dict_update (own_fields d) (combined_parent_fields chain)) =
     fst ` set (namespaced [''children'', ''type''] d)
       \<union> fst ` set (concat (map (namespaced [''children'']) chain))"
  by (simp add: keys_dict_update own_fields_items combined_parent_fields_items)

lemma map_of_filter_keys:
  "map_of (filter (\<lambda>(k, v). Q k) d) k = (if Q k then map_of d k else None)"
  by (induction d) (auto)

lemma dict_get_remove_unwanted:
  "k \<notin> set remove_list \<Longrightarrow> dict_get (remove_unwanted d) k dflt = dict_get d k dflt"
  by (simp add: dict_get_def remove_unwanted_filter map_of_filter_keys)

lemma prefix_of_remove_unwanted: "prefix_of (remove_unwanted d) = prefix_of d"
  by (simp add: prefix_of_def dict_get_remove_unwanted remove_list_def)

lemma ancestor_items_map:
  "concat (map (namespaced [''children'']) (map remove_unwanted chain)) = ancestor_items chain"
  by (simp add: ancestor_items_def comp_def)

lemma record_of_build:
  "\<exists>ref. record_of n chain level c =
     AList.update ''cfr_ref'' (JStr ref)
      (AList.update ''is_leaf_node'' (JBool (get_children (children n) = []))
        (AList.update ''order_id'' (JInt c)
          (AList.update ''hierarchy_type'' (dict_get (attrs n) ''type'' JNull)
            (AList.update ''hierarchy_level'' (JInt level)
              (dict_update (own_fields (remove_unwanted (attrs n)))
                 (combined_parent_fields (map remove_unwanted chain)))))))"
proof -
  let ?e = "AList.update ''is_leaf_node'' (JBool (get_children (children n) = []))
        (AList.update ''order_id'' (JInt c)
          (AList.update ''hierarchy_type'' (dict_get (attrs n) ''type'' JNull)
            (AList.update ''hierarchy_level'' (JInt level)
              (dict_update (own_fields (remove_unwanted (attrs n)))
                 (combined_parent_fields (map remove_unwanted chain))))))"
  obtain ref where "calculate_cfr_ref ?e = Some ref"
    using calculate_cfr_ref_returns by blast
  then have "record_of n chain level c = AList.update ''cfr_ref'' (JStr ref) ?e"
    by (simp add: record_of_def build_element_def Let_def dict_get_remove_unwanted
        remove_list_def)
  then show ?thesis by blast
qed

lemma record_of_map:
  "\<exists>ref. map_of (record_of n chain level c) =
     (map_of (rev (own_items (attrs n))) ++ map_of (rev (ancestor_items chain)))
       (''hierarchy_level'' \<mapsto> JInt level,
        ''hierarchy_type'' \<mapsto> dict_get (attrs n) ''type'' JNull,
        ''order_id'' \<mapsto> JInt c,
        ''is_leaf_node'' \<mapsto> JBool (get_children (children n) = []),
        ''cfr_ref'' \<mapsto> JStr ref)"
proof -
  obtain ref where r: "record_of n chain level c =
     AList.update ''cfr_ref'' (JStr ref)
      (AList.update ''is_leaf_node'' (JBool (get_children (children n) = []))
        (AList.update ''order_id'' (JInt c)
          (AList.update ''hierarchy_type'' (dict_get (attrs n) ''type'' JNull)
            (AList.update ''hierarchy_level'' (JInt level)
              (dict_update (own_fields (remove_unwanted (attrs n)))
                 (combined_parent_fields (map remove_unwanted chain)))))))"
    using record_of_build by blast
  show ?thesis
    unfolding r update_conv' map_of_merged ancestor_items_map own_items_def [symmetric]
    by blast
qed

lemma record_of_keys:
  "fst ` set (record_of n chain level c) =
     set reserved_keys \<union> fst ` set (own_items (attrs n)) \<union> fst ` set (ancestor_items chain)"
proof -
  obtain ref where r: "record_of n chain level c =
     AList.update ''cfr_ref'' (JStr ref)
      (AList.update ''is_leaf_node'' (JBool (get_children (children n) = []))
        (AList.update ''order_id'' (JInt c)
          (AList.update ''hierarchy_type'' (dict_get (attrs n) ''type'' JNull)
            (AList.update ''hierarchy_level'' (JInt level)
              (dict_update (own_fields (remove_unwanted (attrs n)))
                 (combined_parent_fields (map remove_unwanted chain)))))))"
    using record_of_build by blast
  show ?thesis
    unfolding r dom_update keys_merged ancestor_items_map own_items_def [symmetric]
      reserved_keys_def
    by auto
qed

lemma record_of_lookup:
  assumes "k \<notin> set reserved_keys"
  shows "map_of (record_of n chain level c) k =
     (map_of (rev (own_items (attrs n))) ++ map_of (rev (ancestor_items chain))) k"
proof -
  obtain ref where "map_of (record_of n chain level c) =
     (map_of (rev (own_items (attrs n))) ++ map_of (rev (ancestor_items chain)))
       (''hierarchy_level'' \<mapsto> JInt level,
        ''hierarchy_type'' \<mapsto> dict_get (attrs n) ''type'' JNull,
        ''order_id'' \<mapsto> JInt c,
        ''is_leaf_node'' \<mapsto> JBool (get_children (children n) = []),
        ''cfr_ref'' \<mapsto> JStr ref)"
    using record_of_map by blast
  then show ?thesis
    using assms by (simp add: reserved_keys_def)
qed

lemma record_of_reserved:
  "map_of (record_of n chain level c) ''hierarchy_level'' = Some (JInt level)"
  "map_of (record_of n chain level c) ''hierarchy_type'' = Some (dict_get (attrs n) ''type'' JNull)"
  "map_of (record_of n chain level c) ''order_id'' = Some (JInt c)"
  "map_of (record_of n chain level c) ''is_leaf_node'' = Some (JBool (get_children (children n) = []))"
  using record_of_map [of n chain level c] by auto


section \<open>Records by position\<close>

lemma length_records_from: "length (records_from c vs) = length vs"
  by (induction vs arbitrary: c) auto

lemma records_from_nth:
  "i < length vs \<Longrightarrow> vs ! i = (n, chain, level) \<Longrightarrow>
   records_from c vs ! i = record_of n chain level (c + int i)"
proof (induction vs arbitrary: c i)
  case Nil
  then show ?case by simp
next
  case (Cons v vs)
  show ?case
  proof (cases i)
    case 0
    with Cons.prems show ?thesis by simp
  next
    case (Suc j)
    with Cons.prems have "records_from (c + 1) vs ! j = record_of n chain level (c + 1 + int j)"
      by (intro Cons.IH) simp_all
    with Suc show ?thesis by (cases v) (simp add: algebra_simps)
  qed
qed

lemma flatten_records_structure:
  "flatten_records c root = Some (records_from c (preorder root [] 0))"
  by (simp add: flatten_records_def flatten_call_structure)

lemma keys_namespaced:
  "fst ` set (namespaced excl d) = (\<lambda>k. prefix_of d @ ''_'' @ k) ` (fst ` set d - set excl)"
  by (force simp: namespaced_def)

lemma map_of_prefixed:
  "map_of (map (\<lambda>(k, v). (p @ ''_'' @ k, v)) xs) (p @ ''_'' @ k) = map_of xs k"
  by (induction xs) auto

lemma map_of_namespaced:
  "map_of (namespaced excl d) (prefix_of d @ ''_'' @ k) =
     (if k \<in> set excl then None else map_of d k)"
proof -
  have "map_of (namespaced excl d) (prefix_of d @ ''_'' @ k) =
        map_of (filter (\<lambda>(k, v). k \<notin> set excl) d) k"
    unfolding namespaced_def by (rule map_of_prefixed)
  also have "\<dots> = (if k \<notin> set excl then map_of d k else None)"
    by (rule map_of_filter_keys)
  finally show ?thesis by simp
qed

lemma distinct_namespaced:
  assumes "distinct (map fst d)"
  shows "distinct (map fst (namespaced excl d))"
proof -
  have "map fst (namespaced excl d)
        = map (\<lambda>k. prefix_of d @ ''_'' @ k) (map fst (filter (\<lambda>(k, v). k \<notin> set excl) d))"
    by (simp add: namespaced_def comp_def case_prod_unfold)
  moreover have "distinct (map fst (filter (\<lambda>(k, v). k \<notin> set excl) d))"
    using assms by (simp add: distinct_map_filter)
  ultimately show ?thesis
    by (simp add: distinct_map inj_on_def)
qed

lemma distinct_remove_unwanted:
  "distinct (map fst d) \<Longrightarrow> distinct (map fst (remove_unwanted d))"
  by (simp add: remove_unwanted_filter distinct_map_filter)

lemma keys_remove_unwanted:
  "fst ` set (remove_unwanted d) = fst ` set d - set remove_list"
  by (force simp: remove_unwanted_filter)

lemma map_of_remove_unwanted:
  "map_of (remove_unwanted d) k = (if k \<in> set remove_list then None else map_of d k)"
  using map_of_filter_keys [of "\<lambda>k. k \<notin> set remove_list" d k]
  by (simp add: remove_unwanted_filter)

lemma ancestor_items_split:
  "ancestor_items (pre @ a # post) =
     ancestor_items pre @ namespaced [''children''] (remove_unwanted a) @ ancestor_items post"
  by (simp add: ancestor_items_def)

lemma nearest_ancestor_value:
  assumes "k \<in> fst ` set (namespaced [''children''] (remove_unwanted a))"
    and "k \<notin> fst ` set (ancestor_items post)"
    and "distinct (map fst a)"
  shows "map_of (rev (ancestor_items (pre @ a # post))) k =
         map_of (namespaced [''children''] (remove_unwanted a)) k"
proof -
  let ?items = "namespaced [''children''] (remove_unwanted a)"
  have post: "map_of (rev (ancestor_items post)) k = None"
    using assms(2) by (simp add: map_of_eq_None_iff)
  have "distinct (map fst ?items)"
    using assms(3) by (simp add: distinct_namespaced distinct_remove_unwanted)
  then have own: "map_of (rev ?items) = map_of ?items"
    by (rule map_of_rev_distinct)
  obtain v where v: "map_of ?items k = Some v"
    using assms(1) by (metis map_of_eq_None_iff not_Some_eq)
  show ?thesis
    by (simp add: ancestor_items_split map_add_def post own v)
qed


section \<open>Order, counter and Scenario A\<close>

lemmas flatten_eval = flatten_records_def flatten_call_def build_element_def Let_def
  remove_unwanted_def remove_list_def contains_def get_children_def own_fields_def
  prefix_of_def dict_get_def combined_parent_fields_def add_ancestor_fields_def
  dict_update_def calculate_cfr_ref_def field_def order_id_default_initial_def

lemma order_ids_records_from:
  "field ''order_id'' (records_from c vs) = map (\<lambda>i. Some (JInt (c + int i))) [0..<length vs]"
proof (induction vs arbitrary: c)
  case Nil
  show ?case by (simp add: field_def)
next
  case (Cons v vs)
  obtain n chain level where v: "v = (n, chain, level)" by (cases v)
  have "field ''order_id'' (records_from c (v # vs)) =
        Some (JInt c) # field ''order_id'' (records_from (c + 1) vs)"
    by (simp add: v field_def record_of_reserved)
  also have "\<dots> = Some (JInt c) # map (\<lambda>i. Some (JInt (c + 1 + int i))) [0..<length vs]"
    by (simp add: Cons.IH)
  also have "\<dots> = map (\<lambda>i. Some (JInt (c + int i))) [0..<length (v # vs)]"
    by (simp add: upt_conv_Cons map_Suc_upt [symmetric] algebra_simps del: upt_Suc)
  finally show ?case .
qed

lemma flatten_twice_structure:
  "flatten_twice root1 root2 =
     Some (records_from 1 (preorder root1 [] 0),
           records_from (1 + int (length (preorder root1 [] 0))) (preorder root2 [] 0))"
  by (simp add: flatten_twice_def flatten_call_structure order_id_default_initial_def)

text \<open>
  C7. The list a call returns is in pre-order: it holds the record of each visit of
  \<open>preorder\<close>, in that order: a node before its descendants, the subtrees of siblings in
  the original order.
\<close>

theorem flatten_is_preorder:
  "flatten_records c root = Some (records_from c (preorder root [] 0))"
  by (simp add: flatten_records_def flatten_call_structure)

text \<open>
  On a title with two parts, the first with a section: the title, the first part, its
  section, then the second part.
\<close>

theorem flatten_is_preorder_witness:
  "map_option (field ''cfr_ref'') (flatten_records 1 family_tree)
     = Some [Some (JStr ''21 CFR''), Some (JStr ''21 CFR pt100''),
             Some (JStr (''21 CFR '' @ section_sign @ ''100.1'')), Some (JStr ''21 CFR pt200'')]
   \<and> map_option (field ''hierarchy_level'') (flatten_records 1 family_tree)
     = Some [Some (JInt 0), Some (JInt 1), Some (JInt 2), Some (JInt 1)]
   \<and> map_option (field ''order_id'') (flatten_records 1 family_tree)
     = Some [Some (JInt 1), Some (JInt 2), Some (JInt 3), Some (JInt 4)]"
proof -
  have "records_from 1 (preorder family_tree [] 0) =
     [[(''title_identifier'', JStr ''21''), (''hierarchy_level'', JInt 0),
       (''hierarchy_type'', JStr ''title''), (''order_id'', JInt 1),
       (''is_leaf_node'', JBool False), (''cfr_ref'', JStr ''21 CFR'')],
      [(''part_identifier'', JStr ''100''), (''title_type'', JStr ''title''),
       (''title_identifier'', JStr ''21''), (''hierarchy_level'', JInt 1),
       (''hierarchy_type'', JStr ''part''), (''order_id'', JInt 2),
       (''is_leaf_node'', JBool False), (''cfr_ref'', JStr ''21 CFR pt100'')],
      [(''section_identifier'', JStr ''100.1''), (''title_type'', JStr ''title''),
       (''title_identifier'', JStr ''21''), (''part_type'', JStr ''part''),
       (''part_identifier'', JStr ''100''), (''hierarchy_level'', JInt 2),
       (''hierarchy_type'', JStr ''section''), (''order_id'', JInt 3),
       (''is_leaf_node'', JBool True),
       (''cfr_ref'', JStr (''21 CFR '' @ section_sign @ ''100.1''))],
      [(''part_identifier'', JStr ''200''), (''title_type'', JStr ''title''),
       (''title_identifier'', JStr ''21''), (''hierarchy_level'', JInt 1),
       (''hierarchy_type'', JStr ''part''), (''order_id'', JInt 4),
       (''is_leaf_node'', JBool True), (''cfr_ref'', JStr ''21 CFR pt200'')]]"
    by (simp add: family_tree_def record_of_def flatten_eval)
  then show ?thesis
    using flatten_is_preorder [of 1 family_tree] by (simp add: field_def)
qed


text \<open>
  C2. The counter is not local to one call: on the second call of a process the default
  list holds what the first call left, so the only record of a second one-node tree gets
  \<^verbatim>\<open>order_id\<close> 2, where the claim says 1.
\<close>

theorem second_call_continues_counter:
  "map_option (field ''order_id'' \<circ> fst) (flatten_twice single_title single_title)
     = Some [Some (JInt 1)]
   \<and> map_option (field ''order_id'' \<circ> snd) (flatten_twice single_title single_title)
     = Some [Some (JInt 2)]"
proof -
  have len: "length (preorder single_title [] 0) = 1"
    by (simp add: single_title_def get_children_def)
  show ?thesis
    unfolding flatten_twice_structure
    by (simp add: order_ids_records_from len)
qed

text \<open>
  C3 as the specification words it fails: the key \<^verbatim>\<open>title_identifier\<close> of the title node
  is namespaced to \<^verbatim>\<open>title_title_identifier\<close>, the synthesizer finds no title identifier,
  and the reference of the section is the degraded \<^verbatim>\<open>CFR section\<close>.
\<close>

theorem scenario_a_spec_counterexample:
  "map_option (field ''cfr_ref'') (flatten_records order_id_default_initial scenario_a_spec)
     = Some [Some (JStr ''CFR title''), Some (JStr ''CFR part''), Some (JStr ''CFR section'')]
   \<and> ''CFR section'' \<noteq> ''21 CFR '' @ section_sign @ ''100.1''"
  by (simp add: scenario_a_spec_def flatten_eval)

text \<open>
  C3, as the code has it. On the first call of a process, the tree of Scenario A gives
  three records with \<^verbatim>\<open>order_id\<close> 1, 2, 3 and \<^verbatim>\<open>hierarchy_level\<close> 0, 1, 2, and the
  reference of the section is \<^verbatim>\<open>CFR section\<close>; with the attribute named
  \<^verbatim>\<open>identifier\<close> on each node, as the structure document names it, the reference of the
  section is \<^verbatim>\<open>21 CFR\<close>, a space, the section sign and \<^verbatim>\<open>100.1\<close>.
\<close>

theorem scenario_a_records:
  "map_option length (flatten_records order_id_default_initial scenario_a_spec) = Some 3
   \<and> map_option (field ''order_id'') (flatten_records order_id_default_initial scenario_a_spec)
       = Some [Some (JInt 1), Some (JInt 2), Some (JInt 3)]
   \<and> map_option (field ''hierarchy_level'')
         (flatten_records order_id_default_initial scenario_a_spec)
       = Some [Some (JInt 0), Some (JInt 1), Some (JInt 2)]
   \<and> map_option (field ''cfr_ref'') (flatten_records order_id_default_initial scenario_a_spec)
       = Some [Some (JStr ''CFR title''), Some (JStr ''CFR part''), Some (JStr ''CFR section'')]
   \<and> map_option length (flatten_records order_id_default_initial scenario_a_identifier)
       = Some 3
   \<and> map_option (field ''order_id'')
         (flatten_records order_id_default_initial scenario_a_identifier)
       = Some [Some (JInt 1), Some (JInt 2), Some (JInt 3)]
   \<and> map_option (field ''hierarchy_level'')
         (flatten_records order_id_default_initial scenario_a_identifier)
       = Some [Some (JInt 0), Some (JInt 1), Some (JInt 2)]
   \<and> map_option (field ''cfr_ref'')
         (flatten_records order_id_default_initial scenario_a_identifier)
       = Some [Some (JStr ''21 CFR''), Some (JStr ''21 CFR pt100''),
               Some (JStr (''21 CFR '' @ section_sign @ ''100.1''))]"
proof -
  have spec: "flatten_records order_id_default_initial scenario_a_spec = Some
     [[(''title_title_identifier'', JStr ''21''), (''hierarchy_level'', JInt 0),
       (''hierarchy_type'', JStr ''title''), (''order_id'', JInt 1),
       (''is_leaf_node'', JBool False), (''cfr_ref'', JStr ''CFR title'')],
      [(''part_part_identifier'', JStr ''100''), (''title_type'', JStr ''title''),
       (''title_title_identifier'', JStr ''21''), (''hierarchy_level'', JInt 1),
       (''hierarchy_type'', JStr ''part''), (''order_id'', JInt 2),
       (''is_leaf_node'', JBool False), (''cfr_ref'', JStr ''CFR part'')],
      [(''section_section_identifier'', JStr ''100.1''), (''title_type'', JStr ''title''),
       (''title_title_identifier'', JStr ''21''), (''part_type'', JStr ''part''),
       (''part_part_identifier'', JStr ''100''), (''hierarchy_level'', JInt 2),
       (''hierarchy_type'', JStr ''section''), (''order_id'', JInt 3),
       (''is_leaf_node'', JBool True), (''cfr_ref'', JStr ''CFR section'')]]"
    by (simp add: scenario_a_spec_def flatten_eval)
  have ecfr: "flatten_records order_id_default_initial scenario_a_identifier = Some
     [[(''title_identifier'', JStr ''21''), (''hierarchy_level'', JInt 0),
       (''hierarchy_type'', JStr ''title''), (''order_id'', JInt 1),
       (''is_leaf_node'', JBool False), (''cfr_ref'', JStr ''21 CFR'')],
      [(''part_identifier'', JStr ''100''), (''title_type'', JStr ''title''),
       (''title_identifier'', JStr ''21''), (''hierarchy_level'', JInt 1),
       (''hierarchy_type'', JStr ''part''), (''order_id'', JInt 2),
       (''is_leaf_node'', JBool False), (''cfr_ref'', JStr ''21 CFR pt100'')],
      [(''section_identifier'', JStr ''100.1''), (''title_type'', JStr ''title''),
       (''title_identifier'', JStr ''21''), (''part_type'', JStr ''part''),
       (''part_identifier'', JStr ''100''), (''hierarchy_level'', JInt 2),
       (''hierarchy_type'', JStr ''section''), (''order_id'', JInt 3),
       (''is_leaf_node'', JBool True),
       (''cfr_ref'', JStr (''21 CFR '' @ section_sign @ ''100.1''))]]"
    by (simp add: scenario_a_identifier_def flatten_eval)
  show ?thesis
    unfolding spec ecfr by (simp add: field_def)
qed


section \<open>Precedence, deleted keys and ancestor types\<close>

lemma keys_own_items:
  "fst ` set (own_items d) =
     (\<lambda>k. prefix_of d @ ''_'' @ k) ` (fst ` set d - set remove_list - {''children'', ''type''})"
  by (simp add: own_items_def keys_namespaced keys_remove_unwanted prefix_of_remove_unwanted)

lemma keys_ancestor_items:
  "fst ` set (ancestor_items chain) =
     (\<Union>a \<in> set chain.
        (\<lambda>k. prefix_of a @ ''_'' @ k) ` (fst ` set a - set remove_list - {''children''}))"
  by (simp add: ancestor_items_def keys_namespaced keys_remove_unwanted
      prefix_of_remove_unwanted image_UN)

lemma record_at:
  assumes "i < length (preorder root [] 0)"
    and "preorder root [] 0 ! i = (n, chain, level)"
  shows "flatten_records c root = Some (records_from c (preorder root [] 0))"
    and "i < length (records_from c (preorder root [] 0))"
    and "records_from c (preorder root [] 0) ! i = record_of n chain level (c + int i)"
  using assms
  by (simp_all add: flatten_records_structure length_records_from records_from_nth)

text \<open>
  C8. The tree a call leaves is the input with the keys \<^verbatim>\<open>size\<close>, \<^verbatim>\<open>volumes\<close> and
  \<^verbatim>\<open>descendant_range\<close> deleted from every node and nothing else changed, and every key of
  a record is a reserved key or the namespaced name of an attribute, of the node or of
  one of its ancestors, that is not one of the three.
\<close>

theorem unwanted_keys_never_flattened:
  assumes "i < length (preorder root [] 0)"
    and "preorder root [] 0 ! i = (n, chain, level)"
  shows "\<exists>recs c'. flatten_call c root = Some (recs, strip_tree root, c') \<and> i < length recs
           \<and> (\<forall>k \<in> fst ` set (recs ! i).
                 k \<in> set reserved_keys
                 \<or> (\<exists>a \<in> set (attrs n # chain). \<exists>attr \<in> fst ` set a.
                       attr \<notin> set remove_list \<and> k = prefix_of a @ ''_'' @ attr))"
proof -
  let ?recs = "records_from c (preorder root [] 0)"
  have rec: "?recs ! i = record_of n chain level (c + int i)"
    using record_at(3) [OF assms] .
  have "\<forall>k \<in> fst ` set (?recs ! i).
          k \<in> set reserved_keys
          \<or> (\<exists>a \<in> set (attrs n # chain). \<exists>attr \<in> fst ` set a.
                attr \<notin> set remove_list \<and> k = prefix_of a @ ''_'' @ attr)"
    unfolding rec record_of_keys keys_own_items keys_ancestor_items
    by auto
  then show ?thesis
    using record_at(2) [OF assms] flatten_call_structure [of c root] by blast
qed

lemma keys_own_fields:
  "fst ` set (own_fields (remove_unwanted d)) = fst ` set (own_items d)"
  by (simp add: own_fields_items keys_dict_update own_items_def)

lemma keys_combined_parent_fields:
  "fst ` set (combined_parent_fields (map remove_unwanted chain)) = fst ` set (ancestor_items chain)"
  unfolding combined_parent_fields_items keys_dict_update ancestor_items_map by simp

text \<open>
  C9, as the code has it. For a node below the root and an ancestor with a
  \<^verbatim>\<open>type\<close> attribute, the record contains the key made of the ancestor's type and
  \<^verbatim>\<open>_type\<close>; the key holds the ancestor's type when it is not a reserved key and no
  nearer ancestor produces it. The fields built from the node itself (lines 618 to 622)
  never contain its own type under the namespaced key, so that key is in the record only
  when it is reserved or an ancestor produces it; the node's type is the reserved field
  \<^verbatim>\<open>hierarchy_type\<close>.
\<close>

theorem ancestor_type_key:
  assumes "i < length (preorder root [] 0)"
    and "preorder root [] 0 ! i = (n, pre @ a # post, level)"
    and "distinct (map fst a)"
    and "map_of a ''type'' = Some t"
  shows "\<exists>recs. flatten_records c root = Some recs \<and> i < length recs
           \<and> py_str t @ ''_type'' \<in> fst ` set (recs ! i)
           \<and> (py_str t @ ''_type'' \<notin> set reserved_keys
                \<and> py_str t @ ''_type''
                    \<notin> fst ` set (combined_parent_fields (map remove_unwanted post))
                \<longrightarrow> map_of (recs ! i) (py_str t @ ''_type'') = Some t)
           \<and> prefix_of (attrs n) @ ''_type''
                \<notin> fst ` set (own_fields (remove_unwanted (attrs n)))
           \<and> (prefix_of (attrs n) @ ''_type'' \<in> fst ` set (recs ! i)
                \<longrightarrow> prefix_of (attrs n) @ ''_type'' \<in> set reserved_keys
                     \<or> prefix_of (attrs n) @ ''_type''
                         \<in> fst ` set (combined_parent_fields
                                        (map remove_unwanted (pre @ a # post))))
           \<and> map_of (recs ! i) ''hierarchy_type'' = Some (dict_get (attrs n) ''type'' JNull)"
proof -
  let ?recs = "records_from c (preorder root [] 0)"
  let ?items = "namespaced [''children''] (remove_unwanted a)"
  let ?key = "py_str t @ ''_type''"
  let ?own = "prefix_of (attrs n) @ ''_type''"
  have rec: "?recs ! i = record_of n (pre @ a # post) level (c + int i)"
    using record_at(3) [OF assms(1,2)] .
  have pre: "prefix_of a = py_str t"
    using assms(4) by (simp add: prefix_of_def dict_get_def)
  have ty: "''type'' \<in> fst ` set a"
    using assms(4) by (metis map_of_eq_None_iff option.distinct(1))
  have in_items: "?key \<in> fst ` set ?items"
    using ty by (simp add: keys_namespaced keys_remove_unwanted prefix_of_remove_unwanted pre
        remove_list_def)
  have val: "map_of ?items ?key = Some t"
    using map_of_namespaced [of "[''children'']" "remove_unwanted a" "''type''"] assms(4)
    by (simp add: prefix_of_remove_unwanted pre map_of_remove_unwanted remove_list_def)
  have present: "?key \<in> fst ` set (?recs ! i)"
    unfolding rec record_of_keys ancestor_items_split using in_items by auto
  have held: "map_of (?recs ! i) ?key = Some t"
    if "?key \<notin> set reserved_keys"
      and "?key \<notin> fst ` set (combined_parent_fields (map remove_unwanted post))"
  proof -
    have post: "?key \<notin> fst ` set (ancestor_items post)"
      using that(2) by (simp add: keys_combined_parent_fields)
    have "map_of (?recs ! i) ?key =
          (map_of (rev (own_items (attrs n)))
             ++ map_of (rev (ancestor_items (pre @ a # post)))) ?key"
      unfolding rec using that(1) by (rule record_of_lookup)
    also have "\<dots> = Some t"
      using nearest_ancestor_value [OF in_items post assms(3), of pre]
      by (simp add: map_add_def val)
    finally show ?thesis .
  qed
  have not_own: "?own \<notin> fst ` set (own_fields (remove_unwanted (attrs n)))"
    unfolding keys_own_fields by (auto simp: keys_own_items)
  have origin: "?own \<in> set reserved_keys
        \<or> ?own \<in> fst ` set (combined_parent_fields (map remove_unwanted (pre @ a # post)))"
    if "?own \<in> fst ` set (?recs ! i)"
    using that not_own
    unfolding rec record_of_keys keys_combined_parent_fields keys_own_fields by blast
  have "map_of (?recs ! i) ''hierarchy_type'' = Some (dict_get (attrs n) ''type'' JNull)"
    unfolding rec by (rule record_of_reserved)
  then show ?thesis
    using record_at(1,2) [OF assms(1,2)] present held not_own origin by blast
qed


text \<open>
  C9 as worded fails in two ways. Under an ancestor of type \<^verbatim>\<open>hierarchy\<close> the
  namespaced key is the reserved \<^verbatim>\<open>hierarchy_type\<close>, which holds the child's own type.
  Under a root of type \<^verbatim>\<open>a_b\<close> and a child of type \<^verbatim>\<open>a\<close> with the attribute
  \<^verbatim>\<open>b_type\<close>, the key \<^verbatim>\<open>a_b_type\<close> of the grandchild's record holds the child's
  attribute, not the root's type.
\<close>

theorem ancestor_type_overwritten_counterexample:
  "map_option (field ''hierarchy_type'') (flatten_records order_id_default_initial hierarchy_tree)
     = Some [Some (JStr ''hierarchy''), Some (JStr ''part'')]
   \<and> map_option (field ''a_b_type'')
         (flatten_records order_id_default_initial shadowed_type_tree)
     = Some [None, Some (JStr ''a_b''), Some (JStr ''other'')]"
  by (simp add: hierarchy_tree_def shadowed_type_tree_def flatten_eval)


theorem ancestor_type_key_witness:
  "\<exists>recs. flatten_records 1 scenario_a_ecfr = Some recs \<and> 2 < length recs
     \<and> ''part_type'' \<in> fst ` set (recs ! 2)
     \<and> map_of (recs ! 2) ''part_type'' = Some (JStr ''part'')
     \<and> ''section_type'' \<notin> fst ` set (recs ! 2)
     \<and> map_of (recs ! 2) ''hierarchy_type'' = Some (JStr ''section'')"
  using ancestor_type_key
    [where i = 2 and root = scenario_a_ecfr and c = 1 and post = "[]"
       and pre = "[[(''type'', JStr ''title''), (''identifier'', JStr ''21''),
                    (''size'', JInt 5), (''volumes'', JNull),
                    (''descendant_range'', JStr ''1 - 1499'')]]"
       and a = "[(''type'', JStr ''part''), (''identifier'', JStr ''100''), (''size'', JInt 3)]"
       and n = "Node [(''type'', JStr ''section''), (''identifier'', JStr ''100.1'')] (Some [])"
       and level = 2 and t = "JStr ''part''"]
  by (simp add: scenario_a_ecfr_def combined_parent_fields_def add_ancestor_fields_def
      remove_unwanted_def remove_list_def contains_def prefix_of_def reserved_keys_def
      dict_get_def) blast


theorem unwanted_keys_never_flattened_witness:
  "\<exists>recs c'. flatten_call 1 scenario_a_ecfr =
      Some (recs,
            Node [(''type'', JStr ''title''), (''identifier'', JStr ''21'')]
              (Some [Node [(''type'', JStr ''part''), (''identifier'', JStr ''100'')]
                (Some [Node [(''type'', JStr ''section''), (''identifier'', JStr ''100.1'')]
                  (Some [])])]),
            c')
     \<and> 1 < length recs
     \<and> fst ` set (recs ! 1)
         \<subseteq> set reserved_keys
           \<union> {''part_type'', ''part_identifier'', ''title_type'', ''title_identifier''}"
  using unwanted_keys_never_flattened
    [where i = 1 and root = scenario_a_ecfr and c = 1
       and chain = "[[(''type'', JStr ''title''), (''identifier'', JStr ''21''),
                      (''size'', JInt 5), (''volumes'', JNull),
                      (''descendant_range'', JStr ''1 - 1499'')]]"
       and n = "Node [(''type'', JStr ''part''), (''identifier'', JStr ''100''),
                      (''size'', JInt 3)]
                  (Some [Node [(''type'', JStr ''section''), (''identifier'', JStr ''100.1'')]
                    (Some [])])"
       and level = 1]
  by (simp add: scenario_a_ecfr_def get_children_def remove_list_def prefix_of_def
      dict_get_def) (fastforce simp: subset_iff)


section \<open>Nested nodes of one type\<close>

text \<open>
  C1. The node's own fields do not take precedence: the fields of the ancestors are
  merged after them (line 625) and overwrite equal keys. A subject group \<^verbatim>\<open>B\<close> inside a
  subject group \<^verbatim>\<open>A\<close> has the identifier \<^verbatim>\<open>B\<close> in the fields built from the node
  itself, and its record holds the identifier and the reference of \<^verbatim>\<open>A\<close>.
\<close>

theorem nested_group_takes_parent_identifier:
  "map_of (own_fields (remove_unwanted
             [(''type'', JStr ''subject_group''), (''identifier'', JStr ''B'')]))
     ''subject_group_identifier'' = Some (JStr ''B'')
   \<and> map_option (field ''subject_group_identifier'')
         (flatten_records order_id_default_initial nested_groups)
       = Some [None, Some (JStr ''A''), Some (JStr ''A'')]
   \<and> map_option (field ''cfr_ref'') (flatten_records order_id_default_initial nested_groups)
       = Some [Some (JStr ''26 CFR''), Some (JStr ''26 CFR (Subj Grp A)''),
               Some (JStr ''26 CFR (Subj Grp A)'')]"
  by (simp add: nested_groups_def flatten_eval subject_group_ref_def subject_group_base_def
      in_and_truthy_def getitem_def)


section \<open>Totality of the synthesizer on any record\<close>

lemma fmt_get:
  assumes "ints_convertible item" and "\<not> str_raises dflt"
  shows "fmt (dict_get item k dflt) = Some (py_str (dict_get item k dflt))"
proof (cases "map_of item k")
  case None
  then show ?thesis using assms(2) by (simp add: dict_get_def fmt_def)
next
  case (Some v)
  then have "(k, v) \<in> set item" by (rule map_of_SomeD)
  then have "\<not> str_raises v"
    using assms(1) by (auto simp: ints_convertible_def list_all_iff)
  with Some show ?thesis by (simp add: dict_get_def fmt_def)
qed

lemma fmt_get_str [simp]:
  "ints_convertible item \<Longrightarrow>
   fmt (dict_get item k (JStr s)) = Some (py_str (dict_get item k (JStr s)))"
  by (rule fmt_get) (simp_all add: str_raises_def)

lemma fmt_get_null [simp]:
  "ints_convertible item \<Longrightarrow>
   fmt (dict_get item k JNull) = Some (py_str (dict_get item k JNull))"
  by (rule fmt_get) (simp_all add: str_raises_def)

lemma appendix_ref_direct_eq:
  "ints_convertible item \<Longrightarrow> appendix_ref_direct item base_ref = appendix_ref item base_ref"
  by (simp add: appendix_ref_direct_def appendix_ref_def in_and_truthy_present Let_def
      getitem_present [where dflt = "JStr ''''"])

lemma subject_group_base_direct_eq:
  "ints_convertible item \<Longrightarrow>
   subject_group_base_direct item base_ref = subject_group_base item base_ref"
  by (simp add: subject_group_base_direct_def subject_group_base_def in_and_truthy_present
      Let_def getitem_present [where dflt = "JStr ''''"])

lemma subject_group_ref_direct_eq:
  "ints_convertible item \<Longrightarrow>
   subject_group_ref_direct item base_ref = subject_group_ref item base_ref"
  by (simp add: subject_group_ref_direct_def subject_group_ref_def Let_def
      subject_group_base_direct_eq subject_group_base_spec)

lemma calculate_cfr_ref_direct_eq:
  "ints_convertible item \<Longrightarrow> calculate_cfr_ref_direct item = calculate_cfr_ref item"
  by (simp add: calculate_cfr_ref_direct_def calculate_cfr_ref_def Let_def
      appendix_ref_direct_eq subject_group_ref_direct_eq)

text \<open>
  C4, as the code has it. For every record whose integers have at most 4300 digits, the
  synthesizer does not raise and returns a string, whatever keys the record has or lacks.
\<close>

theorem calculate_cfr_ref_direct_total:
  assumes "ints_convertible item"
  shows "\<exists>s. calculate_cfr_ref_direct item = Some s"
  using calculate_cfr_ref_direct_eq [OF assms] calculate_cfr_ref_returns [of item] by simp

theorem calculate_cfr_ref_direct_total_witness:
  "calculate_cfr_ref_direct [(''hierarchy_type'', JStr ''subject_group'')]
     = Some ''CFR subject_group''
   \<and> calculate_cfr_ref_direct [] = Some ''CFR None''
   \<and> calculate_cfr_ref_direct [(''hierarchy_type'', JNull), (''order_id'', JInt 7)]
     = Some ''CFR None''"
proof -
  have small: "\<not> too_long_int \<le> 7"
  proof -
    have "(7::int) < 10 ^ 1" by simp
    also have "(10::int) ^ 1 \<le> 10 ^ 4300" by (rule power_increasing) simp_all
    finally have "(7::int) < 10 ^ 4300" .
    then show ?thesis unfolding too_long_int_def by (simp only: not_le)
  qed
  show ?thesis
    using
      calculate_cfr_ref_direct_total [of "[(''hierarchy_type'', JStr ''subject_group'')]"]
      calculate_cfr_ref_direct_total [of "[]"]
      calculate_cfr_ref_direct_total [of "[(''hierarchy_type'', JNull), (''order_id'', JInt 7)]"]
      small
    by (simp add: ints_convertible_def str_raises_def calculate_cfr_ref_direct_def
        dict_get_def fmt_def)
qed

text \<open>
  C4 as worded fails: on a record whose type is an integer of 4301 digits, the f-string
  of line 523 raises.
\<close>

theorem calculate_cfr_ref_raises_counterexample:
  "calculate_cfr_ref_direct [(''hierarchy_type'', JInt too_long_int)] = None"
  by (simp add: calculate_cfr_ref_direct_def dict_get_def fmt_def str_raises_def)

end
